theory Spec2Isabelle
  imports Main "HOL-Library.Word"
begin

section \<open>Wire types\<close>

text \<open>
  The structs of the package become records. A Go pointer field (\<open>*string\<close>, \<open>*bool\<close>,
  \<open>*int64\<close>, \<open>*AccountAttributes\<close>) is an option, \<open>nil\<close> being \<open>None\<close>; a slice is a
  list, the nil slice being \<open>[]\<close>; \<open>int64\<close> is a 64-bit word read with \<open>sint\<close>.
\<close>

type_synonym int64 = "64 word"

record GenericError =
  ErrorMessage :: string
  ErrorCode :: string

record ForbiddenError =
  Error :: string
  ErrorDescription :: string

record AccountAttributes =
  AccountClassification :: "string option"
  AccountMatchingOptOut :: "bool option"
  AccountNumber :: string
  AlternativeNames :: "string list"
  BankID :: string
  BankIDCode :: string
  BaseCurrency :: string
  Bic :: string
  Country :: "string option"
  Iban :: string
  JointAccount :: "bool option"
  Name :: "string list"
  SecondaryIdentification :: string
  Status :: "string option"
  Switched :: "bool option"

record AccountData =
  Attributes :: "AccountAttributes option"
  ID :: string
  OrganisationID :: string
  Type :: string
  Version :: "int64 option"

text \<open>The zero values \<open>GenericError{}\<close>, \<open>ForbiddenError{}\<close> and \<open>AccountData{}\<close>.\<close>

definition GenericError_zero :: GenericError where
  "GenericError_zero = \<lparr>ErrorMessage = [], ErrorCode = []\<rparr>"

definition ForbiddenError_zero :: ForbiddenError where
  "ForbiddenError_zero = \<lparr>Error = [], ErrorDescription = []\<rparr>"

definition AccountData_zero :: AccountData where
  "AccountData_zero =
     \<lparr>Attributes = None, ID = [], OrganisationID = [], Type = [], Version = None\<rparr>"

section \<open>The error taxonomy (errors.go)\<close>

text \<open>
  Every error value the package can hand to a caller. The package's own kinds are the
  structs of errors.go, always built as non-nil pointers by \<open>newErrHttp\<close>,
  \<open>newErrBadRequest\<close>, \<open>newErrConflict\<close>, \<open>newErrForbiden\<close> and \<open>new(...)\<close>.
  The remaining constructors stand for errors made by the libraries the package
  calls and returns unchanged: \<open>encoding/json\<close> (\<open>ErrJson\<close>), \<open>context\<close>
  (\<open>ErrContext\<close>, the value of \<open>ctx.Err()\<close>), \<open>http.Client.Do\<close> (\<open>ErrTransport\<close>)
  and \<open>http.NewRequestWithContext\<close> (\<open>ErrRequest\<close>); their payload is opaque.
\<close>

datatype ctx_err = Canceled | DeadlineExceeded

datatype error =
    ErrHttp int
  | ErrNotFound
  | ErrTooManyRetries
  | ErrBadRequest GenericError
  | ErrConflict GenericError
  | ErrForbidden ForbiddenError
  | ErrJson string
  | ErrContext ctx_err
  | ErrTransport string
  | ErrRequest string

definition newErrHttp :: "int \<Rightarrow> error" where
  "newErrHttp statusCode = ErrHttp statusCode"

definition isSameGenericError :: "GenericError \<Rightarrow> GenericError \<Rightarrow> bool" where
  "isSameGenericError a b \<longleftrightarrow>
     (ErrorCode a = ErrorCode b \<or> ErrorCode b = []) \<and>
     (ErrorMessage a = ErrorMessage b \<or> ErrorMessage b = [])"

text \<open>
  \<open>func (e *ErrBadRequest) Is(target error) bool\<close>: the type assertion
  \<open>target.(*ErrBadRequest)\<close> succeeds on exactly one constructor.
\<close>

fun ErrBadRequest_Is :: "GenericError \<Rightarrow> error \<Rightarrow> bool" where
  "ErrBadRequest_Is e (ErrBadRequest t) = isSameGenericError e t"
| "ErrBadRequest_Is e _ = False"

definition newErrBadRequest :: "GenericError \<Rightarrow> error" where
  "newErrBadRequest e = ErrBadRequest e"

fun ErrConflict_Is :: "GenericError \<Rightarrow> error \<Rightarrow> bool" where
  "ErrConflict_Is e (ErrConflict t) = isSameGenericError e t"
| "ErrConflict_Is e _ = False"

definition newErrConflict :: "GenericError \<Rightarrow> error" where
  "newErrConflict e = ErrConflict e"

definition isSameForbiddenError :: "ForbiddenError \<Rightarrow> ForbiddenError \<Rightarrow> bool" where
  "isSameForbiddenError a b \<longleftrightarrow>
     (Error a = Error b \<or> Error b = []) \<and>
     (ErrorDescription a = ErrorDescription b \<or> ErrorDescription b = [])"

fun ErrForbidden_Is :: "ForbiddenError \<Rightarrow> error \<Rightarrow> bool" where
  "ErrForbidden_Is e (ErrForbidden t) = isSameForbiddenError e t"
| "ErrForbidden_Is e _ = False"

definition newErrForbiden :: "ForbiddenError \<Rightarrow> error" where
  "newErrForbiden e = ErrForbidden e"

section \<open>The world outside the package\<close>

text \<open>
  A response is its status code and the address of its body in a store of unread body
  contents (two responses may share one body, as those of the stub transport of the
  tests do). A request is the part of \<open>*http.Request\<close> the package sets; its body is the one
  \<open>bytes.Buffer\<close> \<open>b\<close> of \<open>httpDo\<close>, a one-shot reader whose unread part lives in the
  world as \<open>reqBody\<close>.
\<close>

record response =
  StatusCode :: int
  Body :: nat

record request =
  Method :: string
  URL :: string
  Header :: "(string \<times> string) list"
  ContentLength :: int

text \<open>
  What the engine does to the outside, in order: \<open>Send\<close> is a call of \<open>client.Do\<close>
  (with the unread request body the transport is handed), \<open>Recv\<close> a response coming
  back, \<open>Decode\<close> a JSON decoder reading from a body, \<open>Drain\<close> and \<open>Close\<close> the two
  statements of \<open>drainAndCloseHttpResponse\<close>, \<open>NewTimer\<close> the call of the timer factory
  with its duration in nanoseconds, \<open>Tick\<close> a receive from the timer's channel and
  \<open>Stop\<close> a call of the timer's \<open>Stop\<close> with its result.
\<close>

datatype event =
    Send request string
  | Recv response
  | Decode nat
  | Drain nat
  | Close nat
  | NewTimer int64
  | Tick
  | Stop bool

record world =
  bodies :: "nat \<Rightarrow> string"
  reqBody :: string
  trace :: "event list"

definition newWorld :: "(nat \<Rightarrow> string) \<Rightarrow> world" where
  "newWorld bs = \<lparr>bodies = bs, reqBody = [], trace = []\<rparr>"

definition emit :: "event list \<Rightarrow> world \<Rightarrow> world" where
  "emit es w = w\<lparr>trace := trace w @ es\<rparr>"

fun isSend :: "event \<Rightarrow> bool" where
  "isSend (Send _ _) = True"
| "isSend _ = False"

fun isNewTimer :: "event \<Rightarrow> bool" where
  "isNewTimer (NewTimer _) = True"
| "isNewTimer _ = False"

definition nsends :: "event list \<Rightarrow> nat" where
  "nsends tr = length (filter isSend tr)"

definition ntimers :: "event list \<Rightarrow> nat" where
  "ntimers tr = length (filter isNewTimer tr)"

text \<open>
  The context carries what \<open>sleepContext\<close> observes: which case its \<open>select\<close> takes on
  the k-th sleep of the call (the timer's tick, or \<open>ctx.Done()\<close> together with what
  \<open>delay.Stop()\<close> then reports), and the value of \<open>ctx.Err()\<close> once it is done. The
  timer factory of \<open>mustGetNewTimer\<close> only shows through these observations and through
  the duration it is called with.
\<close>

datatype wake = Fired | Cancelled bool

record "context" =
  Err :: ctx_err
  wake :: "nat \<Rightarrow> wake"

text \<open>
  The libraries: \<open>rand.Intn\<close> (the k-th draw of the call, reduced to the bound),
  \<open>encoding/json\<close> (the encoder of the request envelope; each decoder maps the unread
  body and the destination to the number of bytes it reads, the destination as it
  leaves it, and the message of its error if it fails), the validation of
  \<open>http.NewRequestWithContext\<close>, and the number of request-body bytes the k-th
  \<open>client.Do\<close> reads before it returns. The envelope \<open>struct{ Data AccountData }\<close>
  around the account is left to the codec.
\<close>

record runtime =
  rnd :: "nat \<Rightarrow> nat"
  Encode :: "AccountData option \<Rightarrow> string + string"
  DecodeGeneric :: "string \<Rightarrow> GenericError \<Rightarrow> nat \<times> GenericError \<times> string option"
  DecodeForbidden :: "string \<Rightarrow> ForbiddenError \<Rightarrow> nat \<times> ForbiddenError \<times> string option"
  DecodeAccount :: "string \<Rightarrow> AccountData \<Rightarrow> nat \<times> AccountData \<times> string option"
  requestError :: "string \<Rightarrow> string \<Rightarrow> string option"
  bodyRead :: "nat \<Rightarrow> nat"

record api =
  client :: "nat \<Rightarrow> request \<Rightarrow> error + response"
  retryCount :: nat

section \<open>Back-off\<close>

definition minBackOffMs :: int64 where
  "minBackOffMs = 100"

definition backOffJitterMs :: nat where
  "backOffJitterMs = 100"

definition Millisecond :: int64 where
  "Millisecond = 1000000"

definition sleepContext :: "context \<Rightarrow> int64 \<Rightarrow> world \<Rightarrow> error option \<times> world" where
  "sleepContext ctx duration w =
     (case wake ctx (ntimers (trace w)) of
        Fired \<Rightarrow> (None, emit [NewTimer duration, Tick] w)
      | Cancelled stopped \<Rightarrow>
          (Some (ErrContext (Err ctx)),
           emit (if stopped then [NewTimer duration, Stop True]
                 else [NewTimer duration, Stop False, Tick]) w))"

definition max_int :: "int64 \<Rightarrow> int64 \<Rightarrow> int64" where
  "max_int a b = (if sint b < sint a then a else b)"

text \<open>
  \<open>math.Round(math.Pow(1.5, float64(n)) * 500.0)\<close> in exact arithmetic: the integer
  nearest to \<open>500 * 3^n / 2^n\<close>, a half rounded up. This is the value of the float64
  computation for every attempt up to 72, and only there: every intermediate value is
  held exactly by float64 as long as \<open>125 * 3^n < 2^53\<close> (\<open>n \<le> 29\<close>), and up to
  \<open>n = 72\<close> the rounding error of float64 stays too small to change the nearest integer.
  From \<open>n = 73\<close> on the code's value differs from \<open>roundPow n\<close> in its last digits
  (the code gives 3577930624401051 at 73, \<open>roundPow 73\<close> is 3577930624401050), so beyond
  attempt 72 a duration of the model stands for the code's only up to this difference;
  the values computed below are for attempts up to 59.
\<close>

definition roundPow :: "nat \<Rightarrow> int" where
  "roundPow n = (1000 * 3 ^ n + 2 ^ n) div (2 * 2 ^ n)"

text \<open>
  The conversion \<open>int(f)\<close> of a float64 holding an integer. Go leaves the result
  implementation-dependent when the value is outside int64; amd64 gives the least int64.
\<close>

definition float_to_int :: "int \<Rightarrow> int64" where
  "float_to_int x = (if x < 2 ^ 63 then word_of_int x else word_of_int (- (2 ^ 63)))"

definition Intn :: "runtime \<Rightarrow> nat \<Rightarrow> nat \<Rightarrow> nat" where
  "Intn rt k n = rnd rt k mod n"

text \<open>
  The duration \<open>backOff\<close> hands to \<open>sleepContext\<close>, \<open>r\<close> being the value of
  \<open>rand.Intn(backOffJitterMs)\<close>: int and \<open>time.Duration\<close> are 64-bit and wrap around.
\<close>

definition backOffDuration :: "nat \<Rightarrow> nat \<Rightarrow> int64" where
  "backOffDuration n r =
     (let d = float_to_int (roundPow n);
          d = max_int minBackOffMs (d + (word_of_nat r - word_of_nat (backOffJitterMs div 2)))
      in d * Millisecond)"

definition backOff :: "runtime \<Rightarrow> context \<Rightarrow> nat \<Rightarrow> world \<Rightarrow> error option \<times> world" where
  "backOff rt ctx n w =
     sleepContext ctx
       (backOffDuration n (Intn rt (ntimers (trace w)) backOffJitterMs)) w"

section \<open>The request engine\<close>

definition DefaultRetryCount :: nat where
  "DefaultRetryCount = 3"

definition BaseURL :: string where
  "BaseURL = ''http://accountapi:8080''"

text \<open>
  \<open>a.client.Do(req)\<close>: the k-th call of the run hands the transport the request with
  whatever is still unread of its body, which the transport reads from; the outcome is
  the client's.
\<close>

definition client_Do :: "api \<Rightarrow> runtime \<Rightarrow> request \<Rightarrow> world \<Rightarrow> (error + response) \<times> world" where
  "client_Do a rt req w =
     (let k = nsends (trace w);
          w1 = (emit [Send req (reqBody w)] w)\<lparr>reqBody := drop (bodyRead rt k) (reqBody w)\<rparr>
      in case client a k req of
           Inl err \<Rightarrow> (Inl err, w1)
         | Inr resp \<Rightarrow> (Inr resp, emit [Recv resp] w1))"

definition drainAndCloseHttpResponse :: "response \<Rightarrow> world \<Rightarrow> world" where
  "drainAndCloseHttpResponse resp w =
     emit [Drain (Body resp), Close (Body resp)] (w\<lparr>bodies := (bodies w)(Body resp := [])\<rparr>)"

text \<open>
  The loop of \<open>httpDoRetry\<close>, from attempt \<open>i\<close> on; \<open>ctx\<close> is \<open>req.Context()\<close>, the
  context \<open>httpDo\<close> built the request with.
\<close>

function httpDoRetry_from ::
  "api \<Rightarrow> runtime \<Rightarrow> context \<Rightarrow> request \<Rightarrow> nat \<Rightarrow> nat \<Rightarrow> world \<Rightarrow> (error + response) \<times> world"
where
  "httpDoRetry_from a rt ctx req count i w =
     (if i < count then
        (case client_Do a rt req w of
           (Inl err, w1) \<Rightarrow> (Inl err, w1)
         | (Inr resp, w1) \<Rightarrow>
             if StatusCode resp = 429 \<or> StatusCode resp = 500 \<or>
                StatusCode resp = 503 \<or> StatusCode resp = 504
             then
               (case backOff rt ctx i (drainAndCloseHttpResponse resp w1) of
                  (Some err, w2) \<Rightarrow> (Inl err, w2)
                | (None, w2) \<Rightarrow> httpDoRetry_from a rt ctx req count (Suc i) w2)
             else (Inr resp, w1))
      else (Inl ErrTooManyRetries, w))"
  by pat_completeness auto
termination
  by (relation "measure (\<lambda>(a, rt, ctx, req, count, i, w). count - i)") auto

declare httpDoRetry_from.simps [simp del]

definition httpDoRetry ::
  "api \<Rightarrow> runtime \<Rightarrow> context \<Rightarrow> request \<Rightarrow> nat \<Rightarrow> world \<Rightarrow> (error + response) \<times> world"
where
  "httpDoRetry a rt ctx req count w = httpDoRetry_from a rt ctx req count 0 w"

text \<open>\<open>json.NewDecoder(resp.Body).Decode(&ret)\<close>: the decoder consumes a prefix of the body.\<close>

definition decodeBody ::
  "(string \<Rightarrow> 'a \<Rightarrow> nat \<times> 'a \<times> string option) \<Rightarrow> response \<Rightarrow> 'a \<Rightarrow> world
     \<Rightarrow> ('a \<times> error option) \<times> world"
where
  "decodeBody dec resp ret w =
     (case dec (bodies w (Body resp)) ret of
        (n, ret', err) \<Rightarrow>
          ((ret', map_option ErrJson err),
           emit [Decode (Body resp)]
             (w\<lparr>bodies := (bodies w)(Body resp := drop n (bodies w (Body resp)))\<rparr>)))"

definition parse400or409 :: "runtime \<Rightarrow> response \<Rightarrow> world \<Rightarrow> error \<times> world" where
  "parse400or409 rt resp w =
     (case decodeBody (DecodeGeneric rt) resp GenericError_zero w of
        ((ret, Some err), w1) \<Rightarrow> (err, w1)
      | ((ret, None), w1) \<Rightarrow>
          if StatusCode resp = 400 then (newErrBadRequest ret, w1)
          else (newErrConflict ret, w1))"

definition parse403 :: "runtime \<Rightarrow> response \<Rightarrow> world \<Rightarrow> error \<times> world" where
  "parse403 rt resp w =
     (case decodeBody (DecodeForbidden rt) resp ForbiddenError_zero w of
        ((ret, Some err), w1) \<Rightarrow> (err, w1)
      | ((ret, None), w1) \<Rightarrow> (newErrForbiden ret, w1))"

definition parseError :: "runtime \<Rightarrow> response \<Rightarrow> world \<Rightarrow> error \<times> world" where
  "parseError rt resp w =
     (if StatusCode resp = 400 \<or> StatusCode resp = 409 then parse400or409 rt resp w
      else if StatusCode resp = 403 then parse403 rt resp w
      else if StatusCode resp = 404 then (ErrNotFound, w)
      else (newErrHttp (StatusCode resp), w))"

text \<open>\<open>req.Header.Set(key, value)\<close> on canonical keys.\<close>

definition Header_Set :: "string \<Rightarrow> string \<Rightarrow> (string \<times> string) list \<Rightarrow> (string \<times> string) list" where
  "Header_Set k v h = filter (\<lambda>kv. fst kv \<noteq> k) h @ [(k, v)]"

text \<open>
  \<open>http.NewRequestWithContext(ctx, method, url, &b)\<close>: it refuses a bad method or URL;
  for a \<open>*bytes.Buffer\<close> it records the buffer's length as the content length and keeps
  the buffer itself as the request's body.
\<close>

definition NewRequestWithContext :: "runtime \<Rightarrow> string \<Rightarrow> string \<Rightarrow> string \<Rightarrow> error + request" where
  "NewRequestWithContext rt method url b =
     (case requestError rt method url of
        Some err \<Rightarrow> Inl (ErrRequest err)
      | None \<Rightarrow> Inr \<lparr>Method = method, URL = url, Header = [], ContentLength = int (length b)\<rparr>)"

text \<open>
  \<open>httpDo\<close>. The destination \<open>res\<close> is \<open>None\<close> for a nil interface and \<open>Some d\<close> for a
  pointer to a variable holding \<open>d\<close>; the variable as the call leaves it is returned
  with the error. The deferred \<open>drainAndCloseHttpResponse\<close> runs last on every path
  that follows it.
\<close>

definition httpDo ::
  "api \<Rightarrow> runtime \<Rightarrow> context \<Rightarrow> string \<Rightarrow> string \<Rightarrow> AccountData option \<Rightarrow> AccountData option
     \<Rightarrow> world \<Rightarrow> error option \<times> AccountData option \<times> world"
where
  "httpDo a rt ctx method url body res w =
     (case Encode rt body of
        Inl err \<Rightarrow> (Some (ErrJson err), res, w)
      | Inr b \<Rightarrow>
          (case NewRequestWithContext rt method url b of
             Inl err \<Rightarrow> (Some err, res, w)
           | Inr req0 \<Rightarrow>
               (let req = req0\<lparr>Header :=
                      Header_Set ''Content-Type'' ''application/vnd.api+json''
                        (Header_Set ''Accept-Encoding'' ''gzip''
                          (Header_Set ''Accept'' ''application/vnd.api+json'' (Header req0)))\<rparr>
                in case httpDoRetry a rt ctx req (retryCount a) (w\<lparr>reqBody := b\<rparr>) of
                     (Inl err, w1) \<Rightarrow> (Some err, res, w1)
                   | (Inr resp, w1) \<Rightarrow>
                       if StatusCode resp = 200 \<or> StatusCode resp = 201 \<or> StatusCode resp = 204
                       then
                         (case res of
                            None \<Rightarrow> (None, res, drainAndCloseHttpResponse resp w1)
                          | Some d \<Rightarrow>
                              if StatusCode resp \<noteq> 204 then
                                (case decodeBody (DecodeAccount rt) resp d w1 of
                                   ((d', Some err), w2) \<Rightarrow>
                                     (Some err, Some d', drainAndCloseHttpResponse resp w2)
                                 | ((d', None), w2) \<Rightarrow>
                                     (None, Some d', drainAndCloseHttpResponse resp w2))
                              else (None, res, drainAndCloseHttpResponse resp w1))
                       else
                         (case parseError rt resp w1 of
                            (err, w2) \<Rightarrow> (Some err, res, drainAndCloseHttpResponse resp w2)))))"

text \<open>\<open>fmt.Sprintf\<close> with \<open>%d\<close> on an int64.\<close>

function decimal :: "nat \<Rightarrow> string" where
  "decimal n = (if n < 10 then [char_of (48 + n)] else decimal (n div 10) @ [char_of (48 + n mod 10)])"
  by pat_completeness auto
termination
  by (relation "measure id") auto

declare decimal.simps [simp del]

definition Sprintf_d :: "int64 \<Rightarrow> string" where
  "Sprintf_d v = (if sint v < 0 then CHR ''-'' # decimal (nat (- sint v)) else decimal (nat (sint v)))"

definition Create :: "api \<Rightarrow> runtime \<Rightarrow> context \<Rightarrow> AccountData \<Rightarrow> world
    \<Rightarrow> (AccountData \<times> error option) \<times> world" where
  "Create a rt ctx data w =
     (case httpDo a rt ctx ''POST'' (BaseURL @ ''/v1/organisation/accounts'')
             (Some data) (Some AccountData_zero) w of
        (Some err, ret, w1) \<Rightarrow> ((AccountData_zero, Some err), w1)
      | (None, ret, w1) \<Rightarrow> ((case ret of Some d \<Rightarrow> d | None \<Rightarrow> AccountData_zero, None), w1))"

definition Fetch :: "api \<Rightarrow> runtime \<Rightarrow> context \<Rightarrow> string \<Rightarrow> world
    \<Rightarrow> (AccountData \<times> error option) \<times> world" where
  "Fetch a rt ctx accountID w =
     (case httpDo a rt ctx ''GET'' (BaseURL @ ''/v1/organisation/accounts/'' @ accountID)
             None (Some AccountData_zero) w of
        (Some err, ret, w1) \<Rightarrow> ((AccountData_zero, Some err), w1)
      | (None, ret, w1) \<Rightarrow> ((case ret of Some d \<Rightarrow> d | None \<Rightarrow> AccountData_zero, None), w1))"

definition Delete :: "api \<Rightarrow> runtime \<Rightarrow> context \<Rightarrow> string \<Rightarrow> int64 \<Rightarrow> world
    \<Rightarrow> error option \<times> world" where
  "Delete a rt ctx accountID version w =
     (case httpDo a rt ctx ''DELETE''
             (BaseURL @ ''/v1/organisation/accounts/'' @ accountID @ ''?version='' @ Sprintf_d version)
             None None w of
        (err, ret, w1) \<Rightarrow> (err, w1))"

section \<open>Vocabulary of the specification\<close>

text \<open>The transient status set of the specification, to compare with the \<open>switch\<close> of \<open>httpDoRetry\<close>.\<close>

definition transientStatus :: "int set" where
  "transientStatus = {429, 500, 503, 504}"

text \<open>The transport answers the k-th send of \<open>req\<close> with a response of transient status.\<close>

definition transientAt :: "api \<Rightarrow> request \<Rightarrow> nat \<Rightarrow> bool" where
  "transientAt a req k =
     (case client a k req of Inl err \<Rightarrow> False | Inr resp \<Rightarrow> StatusCode resp \<in> transientStatus)"

text \<open>The request \<open>httpDo\<close> hands to the retry loop, for a body encoded as \<open>b\<close>.\<close>

definition outbound :: "string \<Rightarrow> string \<Rightarrow> string \<Rightarrow> request" where
  "outbound method url b =
     \<lparr>Method = method, URL = url,
      Header = [(''Accept'', ''application/vnd.api+json''), (''Accept-Encoding'', ''gzip''),
                (''Content-Type'', ''application/vnd.api+json'')],
      ContentLength = int (length b)\<rparr>"

text \<open>The request bodies the transport was handed, one per send, in order.\<close>

fun sentBodies :: "event list \<Rightarrow> string list" where
  "sentBodies [] = []"
| "sentBodies (Send req b # es) = b # sentBodies es"
| "sentBodies (e # es) = sentBodies es"

text \<open>
  The life of a response body, read off a trace. The engine holds at most one response
  at a time: after \<open>Recv\<close> its body is open and may be decoded from; it must then be
  drained, then closed, once each and in this order, before the engine sends again or
  touches a timer. \<open>None\<close> is a trace that breaks this discipline; a trace that ends in
  \<open>Some Idle\<close> has drained and closed every body it received, each exactly once.
\<close>

datatype life = Idle | Open nat | Drained nat

fun life_step :: "life option \<Rightarrow> event \<Rightarrow> life option" where
  "life_step (Some Idle) (Send req b) = Some Idle"
| "life_step (Some Idle) (NewTimer d) = Some Idle"
| "life_step (Some Idle) Tick = Some Idle"
| "life_step (Some Idle) (Stop s) = Some Idle"
| "life_step (Some Idle) (Recv resp) = Some (Open (Body resp))"
| "life_step (Some (Open b)) (Decode b') = (if b' = b then Some (Open b) else None)"
| "life_step (Some (Open b)) (Drain b') = (if b' = b then Some (Drained b) else None)"
| "life_step (Some (Drained b)) (Close b') = (if b' = b then Some Idle else None)"
| "life_step st e = None"

definition lifecycle :: "event list \<Rightarrow> life option" where
  "lifecycle tr = foldl life_step (Some Idle) tr"

fun closedBodies :: "event list \<Rightarrow> nat list" where
  "closedBodies [] = []"
| "closedBodies (Close b # es) = b # closedBodies es"
| "closedBodies (e # es) = closedBodies es"

section \<open>Test doubles\<close>

text \<open>
  After the doubles of the package's tests. \<open>newClientReturningStatusCodeAndBuffer\<close>:
  every send is answered with the same status and the same body. \<open>immediateTimer\<close> fires
  at once; \<open>cancelledAt i\<close> lets the sleep after attempt \<open>i\<close> observe the cancellation.
  The codec stands in for \<open>encoding/json\<close> in closed examples: it encodes a nil body as
  \<open>null\<close> and a newline (as \<open>Encoder.Encode\<close> does), reads the whole body, fails on an
  empty one, and on a body that does not start with a brace fails after writing an id into
  the account. \<open>stubRuntime n\<close> has every send read \<open>n\<close> bytes of the request body.
\<close>

definition stubClient :: "int \<Rightarrow> nat \<Rightarrow> request \<Rightarrow> error + response" where
  "stubClient statusCode k req = Inr \<lparr>StatusCode = statusCode, Body = 0\<rparr>"

definition immediateTimer :: "nat \<Rightarrow> wake" where
  "immediateTimer k = Fired"

definition cancelledAt :: "nat \<Rightarrow> bool \<Rightarrow> nat \<Rightarrow> wake" where
  "cancelledAt i stopped k = (if k = i then Cancelled stopped else Fired)"

definition stubDecode :: "string \<Rightarrow> 'a \<Rightarrow> nat \<times> 'a \<times> string option" where
  "stubDecode s ret = (length s, ret, if s = [] then Some ''EOF'' else None)"

definition stubDecodeAccount :: "string \<Rightarrow> AccountData \<Rightarrow> nat \<times> AccountData \<times> string option" where
  "stubDecodeAccount s ret =
     (if s = [] then (0, ret, Some ''EOF'')
      else if hd s = CHR ''{'' then (length s, ret\<lparr>ID := ''0d209d7f'', Type := ''accounts''\<rparr>, None)
      else (length s, ret\<lparr>ID := ''0d209d7f''\<rparr>, Some ''unexpected end of JSON input''))"

definition stubRuntime :: "nat \<Rightarrow> runtime" where
  "stubRuntime n =
     \<lparr>rnd = (\<lambda>k. 50 + k),
      Encode = (\<lambda>body. case body of None \<Rightarrow> Inr (''null'' @ [CHR 0x0A])
                                   | Some d \<Rightarrow> Inr (''{}'' @ [CHR 0x0A])),
      DecodeGeneric = stubDecode, DecodeForbidden = stubDecode,
      DecodeAccount = stubDecodeAccount,
      requestError = (\<lambda>method url. None),
      bodyRead = (\<lambda>k. n)\<rparr>"

definition stubAPI :: "int \<Rightarrow> nat \<Rightarrow> api" where
  "stubAPI statusCode n = \<lparr>client = stubClient statusCode, retryCount = n\<rparr>"

definition background :: "context" where
  "background = \<lparr>Err = Canceled, wake = immediateTimer\<rparr>"

text \<open>
  A transport that answers 503 to the first \<open>i\<close> sends and fails from then on, a request
  as \<open>httpDo\<close> builds it, and a runtime whose \<open>http.NewRequestWithContext\<close> refuses a URL
  with a control character, as \<open>net/url\<close> does.
\<close>

definition failingClient :: "nat \<Rightarrow> error \<Rightarrow> nat \<Rightarrow> request \<Rightarrow> error + response" where
  "failingClient i err k req = (if k < i then Inr \<lparr>StatusCode = 503, Body = 0\<rparr> else Inl err)"

definition stubRequest :: request where
  "stubRequest = outbound ''GET'' BaseURL ''null''"

definition strictRuntime :: runtime where
  "strictRuntime =
     (stubRuntime 0)\<lparr>requestError := (\<lambda>method url.
        if list_ex (\<lambda>c. (of_char c :: nat) < 32) url
        then Some ''net/url: invalid control character in URL'' else None)\<rparr>"

section \<open>Auxiliary notions for the proofs\<close>

text \<open>
  The world after the next send, the world after a transient response to it was drained
  and closed, and the duration of the sleep that follows at attempt \<open>i\<close>.
\<close>

definition sent :: "runtime \<Rightarrow> request \<Rightarrow> world \<Rightarrow> world" where
  "sent rt req w =
     (emit [Send req (reqBody w)] w)\<lparr>reqBody := drop (bodyRead rt (nsends (trace w))) (reqBody w)\<rparr>"

definition drained :: "runtime \<Rightarrow> request \<Rightarrow> response \<Rightarrow> world \<Rightarrow> world" where
  "drained rt req r w = drainAndCloseHttpResponse r (emit [Recv r] (sent rt req w))"

definition delay :: "runtime \<Rightarrow> nat \<Rightarrow> world \<Rightarrow> int64" where
  "delay rt i w = backOffDuration i (Intn rt (ntimers (trace w)) backOffJitterMs)"

text \<open>What \<open>httpDo\<close> does with the response the retry loop returns.\<close>

definition finish ::
  "runtime \<Rightarrow> AccountData option \<Rightarrow> response \<Rightarrow> world \<Rightarrow> error option \<times> AccountData option \<times> world"
where
  "finish rt res resp w1 =
     (if StatusCode resp = 200 \<or> StatusCode resp = 201 \<or> StatusCode resp = 204
      then
        (case res of
           None \<Rightarrow> (None, res, drainAndCloseHttpResponse resp w1)
         | Some d \<Rightarrow>
             if StatusCode resp \<noteq> 204 then
               (case decodeBody (DecodeAccount rt) resp d w1 of
                  ((d', Some err), w2) \<Rightarrow> (Some err, Some d', drainAndCloseHttpResponse resp w2)
                | ((d', None), w2) \<Rightarrow> (None, Some d', drainAndCloseHttpResponse resp w2))
             else (None, res, drainAndCloseHttpResponse resp w1))
      else
        (case parseError rt resp w1 of
           (err, w2) \<Rightarrow> (Some err, res, drainAndCloseHttpResponse resp w2)))"

text \<open>
  Every body closed so far is empty; and what the retry loop leaves behind: nothing open
  when it fails, the returned response open when it succeeds.
\<close>

definition allDrained :: "world \<Rightarrow> bool" where
  "allDrained w = (\<forall>b \<in> set (closedBodies (trace w)). bodies w b = [])"

definition held :: "(error + response) \<times> world \<Rightarrow> bool" where
  "held rw =
     (allDrained (snd rw) \<and>
      lifecycle (trace (snd rw)) =
        (case fst rw of Inl err \<Rightarrow> Some Idle | Inr r \<Rightarrow> Some (Open (Body r))))"

section \<open>Matching of typed errors\<close>

text \<open>
  Claim C8. For bad-request, conflict and forbidden errors, \<open>a.Is(target)\<close> holds if and
  only if the target is of the same kind and each of its two detail fields either equals
  the field of \<open>a\<close> or is empty; a target of another kind never matches, whatever its
  fields.
\<close>

theorem Is_same_kind_with_wildcards:
  "(ErrBadRequest_Is a target =
      (\<exists>t. target = ErrBadRequest t \<and>
         (ErrorCode a = ErrorCode t \<or> ErrorCode t = []) \<and>
         (ErrorMessage a = ErrorMessage t \<or> ErrorMessage t = []))) \<and>
   (ErrConflict_Is a target =
      (\<exists>t. target = ErrConflict t \<and>
         (ErrorCode a = ErrorCode t \<or> ErrorCode t = []) \<and>
         (ErrorMessage a = ErrorMessage t \<or> ErrorMessage t = []))) \<and>
   (ErrForbidden_Is f target =
      (\<exists>t. target = ErrForbidden t \<and>
         (Error f = Error t \<or> Error t = []) \<and>
         (ErrorDescription f = ErrorDescription t \<or> ErrorDescription t = []))) \<and>
   ErrBadRequest_Is a (ErrConflict a) = False \<and>
   ErrConflict_Is a (ErrBadRequest a) = False \<and>
   ErrBadRequest_Is \<lparr>ErrorMessage = m, ErrorCode = c\<rparr>
     (ErrForbidden \<lparr>Error = m, ErrorDescription = c\<rparr>) = False \<and>
   ErrForbidden_Is \<lparr>Error = m, ErrorDescription = c\<rparr>
     (ErrBadRequest \<lparr>ErrorMessage = m, ErrorCode = c\<rparr>) = False"
  by (cases target) (simp_all add: isSameGenericError_def isSameForbiddenError_def)

section \<open>Traces\<close>

lemma emit_simps [simp]:
  "trace (emit es w) = trace w @ es"
  "bodies (emit es w) = bodies w"
  "reqBody (emit es w) = reqBody w"
  by (simp_all add: emit_def)

lemma newWorld_simps [simp]:
  "trace (newWorld bs) = []"
  "bodies (newWorld bs) = bs"
  "reqBody (newWorld bs) = []"
  by (simp_all add: newWorld_def)

lemma nsends_simps [simp]:
  "nsends [] = 0"
  "nsends (e # es) = (if isSend e then Suc (nsends es) else nsends es)"
  "nsends (xs @ ys) = nsends xs + nsends ys"
  by (simp_all add: nsends_def)

lemma ntimers_simps [simp]:
  "ntimers [] = 0"
  "ntimers (e # es) = (if isNewTimer e then Suc (ntimers es) else ntimers es)"
  "ntimers (xs @ ys) = ntimers xs + ntimers ys"
  by (simp_all add: ntimers_def)

lemma drain_simps [simp]:
  "trace (drainAndCloseHttpResponse r w) = trace w @ [Drain (Body r), Close (Body r)]"
  "bodies (drainAndCloseHttpResponse r w) = (bodies w)(Body r := [])"
  "reqBody (drainAndCloseHttpResponse r w) = reqBody w"
  by (simp_all add: drainAndCloseHttpResponse_def)

lemma sent_simps [simp]:
  "trace (sent rt req w) = trace w @ [Send req (reqBody w)]"
  "bodies (sent rt req w) = bodies w"
  "reqBody (sent rt req w) = drop (bodyRead rt (nsends (trace w))) (reqBody w)"
  by (simp_all add: sent_def)

lemma drained_simps [simp]:
  "trace (drained rt req r w) =
     trace w @ [Send req (reqBody w), Recv r, Drain (Body r), Close (Body r)]"
  "bodies (drained rt req r w) = (bodies w)(Body r := [])"
  "reqBody (drained rt req r w) = drop (bodyRead rt (nsends (trace w))) (reqBody w)"
  by (simp_all add: drained_def)

lemma decodeBody_simps [simp]:
  "trace (snd (decodeBody dec r ret w)) = trace w @ [Decode (Body r)]"
  "bodies (snd (decodeBody dec r ret w)) =
     (bodies w)(Body r := drop (fst (dec (bodies w (Body r)) ret)) (bodies w (Body r)))"
  by (simp_all add: decodeBody_def split: prod.splits)

lemma closedBodies_append [simp]:
  "closedBodies (xs @ ys) = closedBodies xs @ closedBodies ys"
  by (induction xs rule: closedBodies.induct) simp_all

lemma lifecycle_append:
  "lifecycle (xs @ ys) = foldl life_step (lifecycle xs) ys"
  by (simp add: lifecycle_def)

lemma sentBodies_append [simp]:
  "sentBodies (xs @ ys) = sentBodies xs @ sentBodies ys"
  by (induction xs rule: sentBodies.induct) simp_all

section \<open>One iteration of the retry loop\<close>

lemma loop_cases:
  "httpDoRetry_from a rt ctx req count i w =
     (if i < count then
        (case client a (nsends (trace w)) req of
           Inl err \<Rightarrow> (Inl err, sent rt req w)
         | Inr r \<Rightarrow>
             if StatusCode r \<in> transientStatus then
               (case wake ctx (ntimers (trace w)) of
                  Fired \<Rightarrow>
                    httpDoRetry_from a rt ctx req count (Suc i)
                      (emit [NewTimer (delay rt i w), Tick] (drained rt req r w))
                | Cancelled stopped \<Rightarrow>
                    (Inl (ErrContext (Err ctx)),
                     emit (if stopped then [NewTimer (delay rt i w), Stop True]
                           else [NewTimer (delay rt i w), Stop False, Tick])
                       (drained rt req r w)))
             else (Inr r, emit [Recv r] (sent rt req w)))
      else (Inl ErrTooManyRetries, w))"
  by (subst httpDoRetry_from.simps)
     (auto simp add: client_Do_def Let_def sent_def drained_def delay_def transientStatus_def
        backOff_def sleepContext_def split: sum.splits wake.splits)

text \<open>
  A proof rule for the loop: \<open>I\<close> holds whenever an attempt starts, \<open>Q\<close> of whatever the
  loop returns.
\<close>

lemma loop_rule:
  assumes init: "I w"
    and exhausted: "\<And>w. I w \<Longrightarrow> Q (Inl ErrTooManyRetries, w)"
    and failed: "\<And>w err. I w \<Longrightarrow> Q (Inl err, sent rt req w)"
    and final: "\<And>w r. I w \<Longrightarrow> Q (Inr r, emit [Recv r] (sent rt req w))"
    and slept: "\<And>w r d. I w \<Longrightarrow> I (emit [NewTimer d, Tick] (drained rt req r w))"
    and cancelled: "\<And>w r d stopped. I w \<Longrightarrow>
        Q (Inl (ErrContext (Err ctx)),
           emit (if stopped then [NewTimer d, Stop True] else [NewTimer d, Stop False, Tick])
             (drained rt req r w))"
  shows "Q (httpDoRetry_from a rt ctx req count i w)"
  using init
proof (induction "count - i" arbitrary: i w)
  case 0
  then show ?case by (simp add: loop_cases exhausted)
next
  case (Suc n)
  then have lt: "i < count" and n: "n = count - Suc i" by simp_all
  note I = \<open>I w\<close>
  show ?case
  proof (cases "client a (nsends (trace w)) req")
    case (Inl err)
    with lt failed [OF I] show ?thesis by (simp add: loop_cases)
  next
    case (Inr r)
    show ?thesis
    proof (cases "StatusCode r \<in> transientStatus")
      case False
      with lt Inr final [OF I] show ?thesis by (simp add: loop_cases)
    next
      case True
      show ?thesis
      proof (cases "wake ctx (ntimers (trace w))")
        case Fired
        have "Q (httpDoRetry_from a rt ctx req count (Suc i)
                (emit [NewTimer (delay rt i w), Tick] (drained rt req r w)))"
          by (rule Suc.hyps(1) [OF n slept [OF I]])
        with lt Inr True Fired show ?thesis by (simp add: loop_cases)
      next
        case (Cancelled stopped)
        with lt Inr True cancelled [OF I, of stopped "delay rt i w" r] show ?thesis
          by (simp add: loop_cases)
      qed
    qed
  qed
qed



lemma transientAtE:
  assumes "transientAt a req k"
  obtains r where "client a k req = Inr r" "StatusCode r \<in> transientStatus"
  using assms by (auto simp: transientAt_def split: sum.splits)

lemma loop_retry:
  assumes "i < count" "transientAt a req (nsends (trace w))" "wake ctx (ntimers (trace w)) = Fired"
  shows "\<exists>r. client a (nsends (trace w)) req = Inr r \<and> StatusCode r \<in> transientStatus \<and>
           httpDoRetry_from a rt ctx req count i w =
             httpDoRetry_from a rt ctx req count (Suc i)
               (emit [NewTimer (delay rt i w), Tick] (drained rt req r w))"
  using assms by (auto elim!: transientAtE simp add: loop_cases)

text \<open>
  As long as the transport answers with transient statuses and the sleeps complete, the
  loop goes on: \<open>m\<close> such attempts take attempt \<open>i\<close> to attempt \<open>i + m\<close>, with \<open>m\<close> more
  sends and \<open>m\<close> more timers.
\<close>

lemma loop_skip:
  assumes "\<forall>j<m. transientAt a req (nsends (trace w) + j) \<and> wake ctx (ntimers (trace w) + j) = Fired"
    and "i + m \<le> count"
  shows "\<exists>w'. httpDoRetry_from a rt ctx req count i w = httpDoRetry_from a rt ctx req count (i + m) w'
            \<and> nsends (trace w') = nsends (trace w) + m
            \<and> ntimers (trace w') = ntimers (trace w) + m"
  using assms
proof (induction m)
  case 0
  show ?case by (rule exI [of _ w]) simp
next
  case (Suc m)
  then obtain w' where eq: "httpDoRetry_from a rt ctx req count i w =
        httpDoRetry_from a rt ctx req count (i + m) w'"
    and ns: "nsends (trace w') = nsends (trace w) + m"
    and nt: "ntimers (trace w') = ntimers (trace w) + m"
    by auto
  from Suc.prems have "transientAt a req (nsends (trace w'))" "wake ctx (ntimers (trace w')) = Fired"
    and "i + m < count"
    by (simp_all add: ns nt)
  from loop_retry [OF this(3) this(1) this(2), of rt]
  obtain r where step: "httpDoRetry_from a rt ctx req count (i + m) w' =
      httpDoRetry_from a rt ctx req count (Suc (i + m))
        (emit [NewTimer (delay rt (i + m) w'), Tick] (drained rt req r w'))"
    by blast
  let ?w = "emit [NewTimer (delay rt (i + m) w'), Tick] (drained rt req r w')"
  from eq step have "httpDoRetry_from a rt ctx req count i w =
      httpDoRetry_from a rt ctx req count (i + Suc m) ?w"
    by simp
  moreover have "nsends (trace ?w) = nsends (trace w) + Suc m" by (simp add: ns)
  moreover have "ntimers (trace ?w) = ntimers (trace w) + Suc m" by (simp add: nt)
  ultimately show ?case by blast
qed

section \<open>Runs of the retry loop from an empty trace\<close>

lemma loop_reach:
  assumes "trace w = []"
    and "\<forall>j<i. transientAt a req j \<and> wake ctx j = Fired"
    and "i \<le> count"
  shows "\<exists>w'. httpDoRetry a rt ctx req count w = httpDoRetry_from a rt ctx req count i w'
           \<and> nsends (trace w') = i \<and> ntimers (trace w') = i"
  using loop_skip [of i a req w ctx 0 count rt] assms by (simp add: httpDoRetry_def)

lemma run_exhausted:
  assumes "trace w = []"
    and "\<forall>j<count. transientAt a req j \<and> wake ctx j = Fired"
  shows "\<exists>w'. httpDoRetry a rt ctx req count w = (Inl ErrTooManyRetries, w') \<and> nsends (trace w') = count"
proof -
  from loop_reach [OF assms, of count rt] obtain w' where
    "httpDoRetry a rt ctx req count w = httpDoRetry_from a rt ctx req count count w'"
    "nsends (trace w') = count" by auto
  then show ?thesis by (simp add: loop_cases)
qed

lemma run_transport_error:
  assumes "trace w = []"
    and "\<forall>j<i. transientAt a req j \<and> wake ctx j = Fired"
    and "i < count"
    and "client a i req = Inl err"
  shows "\<exists>w'. httpDoRetry a rt ctx req count w = (Inl err, w') \<and> nsends (trace w') = Suc i
           \<and> (\<exists>tr b. trace w' = tr @ [Send req b])"
proof -
  from assms(3) have "i \<le> count" by simp
  from loop_reach [OF assms(1,2) this, of rt] obtain w' where
    w': "httpDoRetry a rt ctx req count w = httpDoRetry_from a rt ctx req count i w'"
    "nsends (trace w') = i" by auto
  with assms(3,4) have "httpDoRetry a rt ctx req count w = (Inl err, sent rt req w')"
    by (simp add: loop_cases)
  moreover have "nsends (trace (sent rt req w')) = Suc i" using w' by simp
  moreover have "\<exists>tr b. trace (sent rt req w') = tr @ [Send req b]" by simp
  ultimately show ?thesis by blast
qed

lemma run_cancelled:
  assumes "trace w = []"
    and "\<forall>j<i. transientAt a req j \<and> wake ctx j = Fired"
    and "i < count"
    and "transientAt a req i"
    and "wake ctx i = Cancelled stopped"
  shows "\<exists>w'. httpDoRetry a rt ctx req count w = (Inl (ErrContext (Err ctx)), w')
           \<and> nsends (trace w') = Suc i
           \<and> (\<exists>tr d. trace w' = tr @ (if stopped then [NewTimer d, Stop True]
                                      else [NewTimer d, Stop False, Tick]))"
proof -
  from assms(3) have "i \<le> count" by simp
  from loop_reach [OF assms(1,2) this, of rt] obtain w' where
    w': "httpDoRetry a rt ctx req count w = httpDoRetry_from a rt ctx req count i w'"
    "nsends (trace w') = i" "ntimers (trace w') = i" by auto
  from assms(4) obtain r where r: "client a i req = Inr r" "StatusCode r \<in> transientStatus"
    by (rule transientAtE)
  let ?es = "if stopped then [NewTimer (delay rt i w'), Stop True]
             else [NewTimer (delay rt i w'), Stop False, Tick]"
  let ?w = "emit ?es (drained rt req r w')"
  from w' r assms(3,5) have "httpDoRetry a rt ctx req count w = (Inl (ErrContext (Err ctx)), ?w)"
    by (simp add: loop_cases)
  moreover have "nsends (trace ?w) = Suc i" using w' by simp
  moreover have "\<exists>tr d. trace ?w = tr @ (if stopped then [NewTimer d, Stop True]
                                      else [NewTimer d, Stop False, Tick])"
    by (cases stopped) auto
  ultimately show ?thesis by blast
qed

section \<open>The request executor\<close>

lemma httpDo_cases:
  "httpDo a rt ctx method url body res w =
     (case Encode rt body of
        Inl err \<Rightarrow> (Some (ErrJson err), res, w)
      | Inr b \<Rightarrow>
          (case requestError rt method url of
             Some err \<Rightarrow> (Some (ErrRequest err), res, w)
           | None \<Rightarrow>
               (case httpDoRetry a rt ctx (outbound method url b) (retryCount a) (w\<lparr>reqBody := b\<rparr>) of
                  (Inl err, w1) \<Rightarrow> (Some err, res, w1)
                | (Inr resp, w1) \<Rightarrow> finish rt res resp w1)))"
  by (auto simp add: httpDo_def finish_def NewRequestWithContext_def outbound_def Header_Set_def
      Let_def split: sum.splits option.splits prod.splits)

lemma httpDo_loop_error:
  assumes "Encode rt body = Inr b" "requestError rt method url = None"
    and "httpDoRetry a rt ctx (outbound method url b) (retryCount a) (w\<lparr>reqBody := b\<rparr>) = (Inl err, w')"
  shows "httpDo a rt ctx method url body res w = (Some err, res, w')"
  using assms by (simp add: httpDo_cases)

lemma httpDo_exhausted:
  assumes "Encode rt body = Inr b"
    and "requestError rt method url = None"
    and "\<forall>j<retryCount a. transientAt a (outbound method url b) j \<and> wake ctx j = Fired"
  shows "\<exists>w'. httpDo a rt ctx method url body res (newWorld bs) = (Some ErrTooManyRetries, res, w')
           \<and> nsends (trace w') = retryCount a"
proof -
  have "trace ((newWorld bs)\<lparr>reqBody := b\<rparr>) = []" by simp
  from run_exhausted [OF this assms(3), of rt] obtain w' where
    "httpDoRetry a rt ctx (outbound method url b) (retryCount a) ((newWorld bs)\<lparr>reqBody := b\<rparr>) =
       (Inl ErrTooManyRetries, w')" "nsends (trace w') = retryCount a"
    by blast
  with assms(1,2) show ?thesis by (simp add: httpDo_loop_error)
qed

section \<open>Facts about the test doubles\<close>

lemma stub_transient: "transientAt (stubAPI 429 n) req j"
  by (simp add: transientAt_def stubAPI_def stubClient_def transientStatus_def)

lemma stub_codec:
  "Encode (stubRuntime n) None = Inr (''null'' @ [CHR 0x0A])"
  "Encode (stubRuntime n) (Some d) = Inr (''{}'' @ [CHR 0x0A])"
  "requestError (stubRuntime n) method url = None"
  "Encode strictRuntime None = Inr (''null'' @ [CHR 0x0A])"
  by (simp_all add: stubRuntime_def strictRuntime_def)

lemma failingClient_transient:
  "j < i \<Longrightarrow> transientAt \<lparr>client = failingClient i err, retryCount = n\<rparr> req j"
  by (simp add: transientAt_def failingClient_def transientStatus_def)

section \<open>Exhausting the retry budget\<close>

text \<open>
  Claim C1. As stated (a transient status on every send gives exactly \<open>K\<close> sends and then
  too-many-retries) the claim fails when a back-off sleep observes cancellation, and, for the
  operations, when the request cannot be built. Amended: for every \<open>K\<close>, \<open>K = 0\<close>
  included, if the transport answers each of the \<open>K\<close> sends of the request with a transient
  status and every back-off sleep completes, the retry loop sends exactly \<open>K\<close> times and
  fails with \<open>ErrTooManyRetries\<close>; and \<open>httpDo\<close>, \<open>Create\<close>, \<open>Fetch\<close> and \<open>Delete\<close> do
  the same, with \<open>K\<close> the configured retry count, whenever the body of the call encodes and
  \<open>http.NewRequestWithContext\<close> accepts the method and URL of the call.
\<close>

theorem too_many_retries_after_K_sends:
  "((\<forall>j<K. transientAt a req j \<and> wake ctx j = Fired) \<longrightarrow>
      (\<exists>w'. httpDoRetry a rt ctx req K (newWorld bs) = (Inl ErrTooManyRetries, w')
         \<and> nsends (trace w') = K)) \<and>
   (retryCount a = K \<and> Encode rt body = Inr b \<and> requestError rt method url = None \<and>
    (\<forall>j<K. transientAt a (outbound method url b) j \<and> wake ctx j = Fired) \<longrightarrow>
      (\<exists>w'. httpDo a rt ctx method url body res (newWorld bs) = (Some ErrTooManyRetries, res, w')
         \<and> nsends (trace w') = K)) \<and>
   (retryCount a = K \<and> Encode rt (Some data) = Inr b \<and>
    requestError rt ''POST'' (BaseURL @ ''/v1/organisation/accounts'') = None \<and>
    (\<forall>j<K. transientAt a (outbound ''POST'' (BaseURL @ ''/v1/organisation/accounts'') b) j \<and>
           wake ctx j = Fired) \<longrightarrow>
      (\<exists>w'. Create a rt ctx data (newWorld bs) = ((AccountData_zero, Some ErrTooManyRetries), w')
         \<and> nsends (trace w') = K)) \<and>
   (retryCount a = K \<and> Encode rt None = Inr b \<and>
    requestError rt ''GET'' (BaseURL @ ''/v1/organisation/accounts/'' @ accountID) = None \<and>
    (\<forall>j<K. transientAt a (outbound ''GET'' (BaseURL @ ''/v1/organisation/accounts/'' @ accountID) b) j \<and>
           wake ctx j = Fired) \<longrightarrow>
      (\<exists>w'. Fetch a rt ctx accountID (newWorld bs) = ((AccountData_zero, Some ErrTooManyRetries), w')
         \<and> nsends (trace w') = K)) \<and>
   (retryCount a = K \<and> Encode rt None = Inr b \<and>
    requestError rt ''DELETE''
      (BaseURL @ ''/v1/organisation/accounts/'' @ accountID @ ''?version='' @ Sprintf_d version) = None \<and>
    (\<forall>j<K. transientAt a (outbound ''DELETE''
              (BaseURL @ ''/v1/organisation/accounts/'' @ accountID @ ''?version='' @ Sprintf_d version) b) j \<and>
           wake ctx j = Fired) \<longrightarrow>
      (\<exists>w'. Delete a rt ctx accountID version (newWorld bs) = (Some ErrTooManyRetries, w')
         \<and> nsends (trace w') = K))"
proof (intro conjI impI)
  assume "\<forall>j<K. transientAt a req j \<and> wake ctx j = Fired"
  then show "\<exists>w'. httpDoRetry a rt ctx req K (newWorld bs) = (Inl ErrTooManyRetries, w')
      \<and> nsends (trace w') = K"
    by (intro run_exhausted) simp_all
next
  assume "retryCount a = K \<and> Encode rt body = Inr b \<and> requestError rt method url = None \<and>
    (\<forall>j<K. transientAt a (outbound method url b) j \<and> wake ctx j = Fired)"
  then show "\<exists>w'. httpDo a rt ctx method url body res (newWorld bs) = (Some ErrTooManyRetries, res, w')
      \<and> nsends (trace w') = K"
    using httpDo_exhausted [of rt body b "method" "url" a ctx res bs] by auto
next
  assume "retryCount a = K \<and> Encode rt (Some data) = Inr b \<and>
    requestError rt ''POST'' (BaseURL @ ''/v1/organisation/accounts'') = None \<and>
    (\<forall>j<K. transientAt a (outbound ''POST'' (BaseURL @ ''/v1/organisation/accounts'') b) j \<and>
           wake ctx j = Fired)"
  then show "\<exists>w'. Create a rt ctx data (newWorld bs) = ((AccountData_zero, Some ErrTooManyRetries), w')
      \<and> nsends (trace w') = K"
    using httpDo_exhausted [of rt "Some data" b "''POST''" "BaseURL @ ''/v1/organisation/accounts''"
        a ctx "Some AccountData_zero" bs]
    by (auto simp add: Create_def)
next
  assume "retryCount a = K \<and> Encode rt None = Inr b \<and>
    requestError rt ''GET'' (BaseURL @ ''/v1/organisation/accounts/'' @ accountID) = None \<and>
    (\<forall>j<K. transientAt a (outbound ''GET'' (BaseURL @ ''/v1/organisation/accounts/'' @ accountID) b) j \<and>
           wake ctx j = Fired)"
  then show "\<exists>w'. Fetch a rt ctx accountID (newWorld bs) = ((AccountData_zero, Some ErrTooManyRetries), w')
      \<and> nsends (trace w') = K"
    using httpDo_exhausted [of rt None b "''GET''" "BaseURL @ ''/v1/organisation/accounts/'' @ accountID"
        a ctx "Some AccountData_zero" bs]
    by (auto simp add: Fetch_def)
next
  assume "retryCount a = K \<and> Encode rt None = Inr b \<and>
    requestError rt ''DELETE''
      (BaseURL @ ''/v1/organisation/accounts/'' @ accountID @ ''?version='' @ Sprintf_d version) = None \<and>
    (\<forall>j<K. transientAt a (outbound ''DELETE''
              (BaseURL @ ''/v1/organisation/accounts/'' @ accountID @ ''?version='' @ Sprintf_d version) b) j \<and>
           wake ctx j = Fired)"
  then show "\<exists>w'. Delete a rt ctx accountID version (newWorld bs) = (Some ErrTooManyRetries, w')
      \<and> nsends (trace w') = K"
    using httpDo_exhausted [of rt None b "''DELETE''"
        "BaseURL @ ''/v1/organisation/accounts/'' @ accountID @ ''?version='' @ Sprintf_d version"
        a ctx None bs]
    by (auto simp add: Delete_def)
qed

text \<open>
  Instances: an empty budget; the always-429 stub with a budget of 100, as in
  \<open>TestApiCreateFetchDeleteRetry\<close>; and a runtime that refuses some URLs but accepts
  the one of this \<open>Fetch\<close>.
\<close>

theorem too_many_retries_after_K_sends_witness:
  "(\<exists>w'. httpDoRetry (stubAPI 200 0) (stubRuntime 0) background stubRequest 0 (newWorld (\<lambda>b. [])) =
            (Inl ErrTooManyRetries, w') \<and> nsends (trace w') = 0) \<and>
   (\<exists>w'. httpDoRetry (stubAPI 429 100) (stubRuntime 0) background stubRequest 100 (newWorld (\<lambda>b. [])) =
            (Inl ErrTooManyRetries, w') \<and> nsends (trace w') = 100) \<and>
   (\<exists>w'. httpDo (stubAPI 429 100) (stubRuntime 0) background ''GET'' BaseURL None None
            (newWorld (\<lambda>b. [])) = (Some ErrTooManyRetries, None, w') \<and> nsends (trace w') = 100) \<and>
   (\<exists>w'. Create (stubAPI 429 100) (stubRuntime 0) background AccountData_zero (newWorld (\<lambda>b. [])) =
            ((AccountData_zero, Some ErrTooManyRetries), w') \<and> nsends (trace w') = 100) \<and>
   (\<exists>w'. Fetch (stubAPI 429 100) (stubRuntime 0) background ''foo'' (newWorld (\<lambda>b. [])) =
            ((AccountData_zero, Some ErrTooManyRetries), w') \<and> nsends (trace w') = 100) \<and>
   (\<exists>w'. Delete (stubAPI 429 100) (stubRuntime 0) background ''bar'' 123 (newWorld (\<lambda>b. [])) =
            (Some ErrTooManyRetries, w') \<and> nsends (trace w') = 100) \<and>
   (\<exists>w'. Fetch (stubAPI 429 2) strictRuntime background ''foo'' (newWorld (\<lambda>b. [])) =
            ((AccountData_zero, Some ErrTooManyRetries), w') \<and> nsends (trace w') = 2)"
proof -
  have t: "\<And>n K req. \<forall>j<K. transientAt (stubAPI 429 n) req j \<and> wake background j = Fired"
    by (simp add: stub_transient background_def immediateTimer_def)
  have t0: "\<forall>j<0. transientAt (stubAPI 200 0) stubRequest j \<and> wake background j = Fired"
    by simp
  have K: "retryCount (stubAPI 429 100) = 100" "retryCount (stubAPI 429 2) = 2"
    by (simp_all add: stubAPI_def)
  have strict: "requestError strictRuntime ''GET'' (BaseURL @ ''/v1/organisation/accounts/'' @ ''foo'') = None"
    by code_simp
  from too_many_retries_after_K_sends [of 0 "stubAPI 200 0" stubRequest background "stubRuntime 0" "\<lambda>b. []"] t0
  have 1: "\<exists>w'. httpDoRetry (stubAPI 200 0) (stubRuntime 0) background stubRequest 0 (newWorld (\<lambda>b. [])) =
      (Inl ErrTooManyRetries, w') \<and> nsends (trace w') = 0"
    by simp
  from too_many_retries_after_K_sends [of 100 "stubAPI 429 100" stubRequest background "stubRuntime 0" "\<lambda>b. []"] t
  have 2: "\<exists>w'. httpDoRetry (stubAPI 429 100) (stubRuntime 0) background stubRequest 100 (newWorld (\<lambda>b. [])) =
      (Inl ErrTooManyRetries, w') \<and> nsends (trace w') = 100"
    by simp
  from too_many_retries_after_K_sends [where K = 100 and a = "stubAPI 429 100" and ctx = background and rt = "stubRuntime 0"
      and bs = "\<lambda>b. []" and body = None and b = "''null'' @ [CHR 0x0A]" and res = None, of _ "''GET''" BaseURL]
    t K stub_codec
  have 3: "\<exists>w'. httpDo (stubAPI 429 100) (stubRuntime 0) background ''GET'' BaseURL None None
      (newWorld (\<lambda>b. [])) = (Some ErrTooManyRetries, None, w') \<and> nsends (trace w') = 100"
    by simp
  from too_many_retries_after_K_sends [where K = 100 and a = "stubAPI 429 100" and ctx = background and rt = "stubRuntime 0"
      and bs = "\<lambda>b. []" and data = AccountData_zero and b = "''{}'' @ [CHR 0x0A]"]
    t K stub_codec
  have 4: "\<exists>w'. Create (stubAPI 429 100) (stubRuntime 0) background AccountData_zero (newWorld (\<lambda>b. [])) =
      ((AccountData_zero, Some ErrTooManyRetries), w') \<and> nsends (trace w') = 100"
    by simp
  from too_many_retries_after_K_sends [where K = 100 and a = "stubAPI 429 100" and ctx = background and rt = "stubRuntime 0"
      and bs = "\<lambda>b. []" and accountID = "''foo''" and b = "''null'' @ [CHR 0x0A]"]
    t K stub_codec
  have 5: "\<exists>w'. Fetch (stubAPI 429 100) (stubRuntime 0) background ''foo'' (newWorld (\<lambda>b. [])) =
      ((AccountData_zero, Some ErrTooManyRetries), w') \<and> nsends (trace w') = 100"
    by simp
  from too_many_retries_after_K_sends [where K = 100 and a = "stubAPI 429 100" and ctx = background and rt = "stubRuntime 0"
      and bs = "\<lambda>b. []" and accountID = "''bar''" and version = 123 and b = "''null'' @ [CHR 0x0A]"]
    t K stub_codec
  have 6: "\<exists>w'. Delete (stubAPI 429 100) (stubRuntime 0) background ''bar'' 123 (newWorld (\<lambda>b. [])) =
      (Some ErrTooManyRetries, w') \<and> nsends (trace w') = 100"
    by simp
  from too_many_retries_after_K_sends [where K = 2 and a = "stubAPI 429 2" and ctx = background and rt = strictRuntime
      and bs = "\<lambda>b. []" and accountID = "''foo''" and b = "''null'' @ [CHR 0x0A]"]
    t K stub_codec strict
  have 7: "\<exists>w'. Fetch (stubAPI 429 2) strictRuntime background ''foo'' (newWorld (\<lambda>b. [])) =
      ((AccountData_zero, Some ErrTooManyRetries), w') \<and> nsends (trace w') = 2"
    by simp
  from 1 2 3 4 5 6 7 show ?thesis by blast
qed

text \<open>
  The claim as stated fails: with a transport that always answers 429 and a budget of two,
  a cancellation observed in the first sleep ends the run after one send with the
  context's error; and a \<open>Fetch\<close> whose URL is refused never sends.
\<close>

theorem transient_always_but_not_K_sends:
  "fst (httpDoRetry (stubAPI 429 2) (stubRuntime 0) \<lparr>Err = Canceled, wake = cancelledAt 0 True\<rparr>
          stubRequest 2 (newWorld (\<lambda>b. []))) = Inl (ErrContext Canceled) \<and>
   nsends (trace (snd (httpDoRetry (stubAPI 429 2) (stubRuntime 0)
          \<lparr>Err = Canceled, wake = cancelledAt 0 True\<rparr> stubRequest 2 (newWorld (\<lambda>b. []))))) = 1 \<and>
   fst (Fetch (stubAPI 429 2) strictRuntime background [CHR 0x0A] (newWorld (\<lambda>b. []))) =
     (AccountData_zero, Some (ErrRequest ''net/url: invalid control character in URL'')) \<and>
   nsends (trace (snd (Fetch (stubAPI 429 2) strictRuntime background [CHR 0x0A]
          (newWorld (\<lambda>b. []))))) = 0"
  by code_simp

section \<open>The life of response bodies\<close>

lemma loop_lifecycle:
  assumes "lifecycle (trace w) = Some Idle" "allDrained w"
  shows "held (httpDoRetry_from a rt ctx req count i w)"
proof (rule loop_rule [where I = "\<lambda>w. lifecycle (trace w) = Some Idle \<and> allDrained w" and Q = held])
  show "lifecycle (trace w) = Some Idle \<and> allDrained w" using assms by simp
qed (auto simp add: held_def allDrained_def lifecycle_append)

lemma parseError_lifecycle:
  assumes "lifecycle (trace w) = Some (Open (Body r))" "allDrained w"
  shows "lifecycle (trace (snd (parseError rt r w))) = Some (Open (Body r)) \<and>
         allDrained (snd (parseError rt r w))"
  using assms
  by (auto simp add: parseError_def parse400or409_def parse403_def decodeBody_def allDrained_def
      lifecycle_append split: prod.splits option.splits)

lemma finish_lifecycle:
  assumes "lifecycle (trace w) = Some (Open (Body r))" "allDrained w"
  shows "lifecycle (trace (snd (snd (finish rt res r w)))) = Some Idle \<and>
         allDrained (snd (snd (finish rt res r w)))"
proof -
  note pe = parseError_lifecycle [OF assms, of rt]
  show ?thesis
    using assms pe
    by (auto simp add: finish_def decodeBody_def allDrained_def lifecycle_append
        split: prod.splits option.splits)
qed

lemma httpDo_lifecycle:
  assumes "lifecycle (trace w) = Some Idle" "allDrained w"
  shows "lifecycle (trace (snd (snd (httpDo a rt ctx method url body res w)))) = Some Idle \<and>
         allDrained (snd (snd (httpDo a rt ctx method url body res w)))"
proof (cases "Encode rt body")
  case (Inl err)
  with assms show ?thesis by (simp add: httpDo_cases)
next
  case (Inr b)
  show ?thesis
  proof (cases "requestError rt method url")
    case (Some err)
    with Inr assms show ?thesis by (simp add: httpDo_cases)
  next
    case None
    let ?w = "w\<lparr>reqBody := b\<rparr>"
    have "lifecycle (trace ?w) = Some Idle" "allDrained ?w"
      using assms by (simp_all add: allDrained_def)
    then have h: "held (httpDoRetry a rt ctx (outbound method url b) (retryCount a) ?w)"
      unfolding httpDoRetry_def by (rule loop_lifecycle)
    obtain res1 w1 where rw: "httpDoRetry a rt ctx (outbound method url b) (retryCount a) ?w = (res1, w1)"
      by (cases "httpDoRetry a rt ctx (outbound method url b) (retryCount a) ?w")
    show ?thesis
    proof (cases res1)
      case (Inl err)
      with h rw Inr None show ?thesis by (simp add: httpDo_cases held_def)
    next
      case (Inr resp)
      with h rw have "lifecycle (trace w1) = Some (Open (Body resp))" "allDrained w1"
        by (simp_all add: held_def)
      from finish_lifecycle [OF this, of rt res] Inr rw \<open>Encode rt body = Inr b\<close> None
      show ?thesis by (simp add: httpDo_cases)
    qed
  qed
qed

text \<open>
  Claim C2. Whatever the transport, the codec, the context and the arguments, when
  \<open>httpDo\<close> returns, every response body the engine received has been drained and then
  closed, exactly once each, a transient one before the sleep that follows it and the final
  one last of all, on the success path, the terminal-error path and the decode-failure path
  alike; and every body closed is empty.
\<close>

theorem bodies_drained_and_closed:
  "lifecycle (trace (snd (snd (httpDo a rt ctx method url body res (newWorld bs))))) = Some Idle \<and>
   (\<forall>b \<in> set (closedBodies (trace (snd (snd (httpDo a rt ctx method url body res (newWorld bs)))))).
      bodies (snd (snd (httpDo a rt ctx method url body res (newWorld bs)))) b = [])"
  using httpDo_lifecycle [of "newWorld bs" a rt ctx "method" "url" body res]
  by (simp add: allDrained_def lifecycle_def)

theorem bodies_drained_and_closed_witness:
  "fst (httpDo (stubAPI 200 3) (stubRuntime 0) background ''POST'' BaseURL
          (Some AccountData_zero) (Some AccountData_zero) (newWorld (\<lambda>b. ''garbage''))) =
     Some (ErrJson ''unexpected end of JSON input'') \<and>
   closedBodies (trace (snd (snd (httpDo (stubAPI 200 3) (stubRuntime 0) background ''POST'' BaseURL
          (Some AccountData_zero) (Some AccountData_zero) (newWorld (\<lambda>b. ''garbage'')))))) = [0] \<and>
   lifecycle (trace (snd (snd (httpDo (stubAPI 200 3) (stubRuntime 0) background ''POST'' BaseURL
          (Some AccountData_zero) (Some AccountData_zero) (newWorld (\<lambda>b. ''garbage'')))))) = Some Idle \<and>
   bodies (snd (snd (httpDo (stubAPI 200 3) (stubRuntime 0) background ''POST'' BaseURL
          (Some AccountData_zero) (Some AccountData_zero) (newWorld (\<lambda>b. ''garbage''))))) 0 = []"
proof -
  let ?r = "httpDo (stubAPI 200 3) (stubRuntime 0) background ''POST'' BaseURL
          (Some AccountData_zero) (Some AccountData_zero) (newWorld (\<lambda>b. ''garbage''))"
  have 1: "fst ?r = Some (ErrJson ''unexpected end of JSON input'')" by code_simp
  have 2: "closedBodies (trace (snd (snd ?r))) = [0]" by code_simp
  from bodies_drained_and_closed [of "stubAPI 200 3" "stubRuntime 0" background "''POST''" BaseURL
      "Some AccountData_zero" "Some AccountData_zero" "\<lambda>b. ''garbage''"] 1 2
  show ?thesis by simp
qed

section \<open>Which statuses are retried\<close>




section \<open>Classification of terminal responses\<close>

text \<open>
  Claim C5. \<open>parseError\<close> yields one error, fixed by the status: for 400 a bad-request and
  for 409 a conflict carrying the decoded \<open>GenericError\<close>, for 403 a forbidden carrying the
  decoded \<open>ForbiddenError\<close>, in each of these three the decoder's own error if decoding
  fails; for 404 not-found and for any other status \<open>ErrHttp\<close> with the status code, both
  without reading the body.
\<close>

theorem parseError_by_status:
  "(StatusCode resp = 400 \<longrightarrow>
      fst (parseError rt resp w) =
        (case DecodeGeneric rt (bodies w (Body resp)) GenericError_zero of
           (n, g, None) \<Rightarrow> ErrBadRequest g
         | (n, g, Some msg) \<Rightarrow> ErrJson msg)) \<and>
   (StatusCode resp = 409 \<longrightarrow>
      fst (parseError rt resp w) =
        (case DecodeGeneric rt (bodies w (Body resp)) GenericError_zero of
           (n, g, None) \<Rightarrow> ErrConflict g
         | (n, g, Some msg) \<Rightarrow> ErrJson msg)) \<and>
   (StatusCode resp = 403 \<longrightarrow>
      fst (parseError rt resp w) =
        (case DecodeForbidden rt (bodies w (Body resp)) ForbiddenError_zero of
           (n, f, None) \<Rightarrow> ErrForbidden f
         | (n, f, Some msg) \<Rightarrow> ErrJson msg)) \<and>
   (StatusCode resp = 404 \<longrightarrow> parseError rt resp w = (ErrNotFound, w)) \<and>
   (StatusCode resp \<notin> {400, 409, 403, 404} \<longrightarrow>
      parseError rt resp w = (ErrHttp (StatusCode resp), w))"
  by (auto simp add: parseError_def parse400or409_def parse403_def decodeBody_def
      newErrBadRequest_def newErrConflict_def newErrForbiden_def newErrHttp_def
      split: prod.splits option.splits)

theorem parseError_by_status_witness:
  "fst (parseError (stubRuntime 0) \<lparr>StatusCode = 400, Body = 0\<rparr> (newWorld (\<lambda>b. ''{}''))) =
     ErrBadRequest GenericError_zero \<and>
   fst (parseError (stubRuntime 0) \<lparr>StatusCode = 409, Body = 0\<rparr> (newWorld (\<lambda>b. ''{}''))) =
     ErrConflict GenericError_zero \<and>
   fst (parseError (stubRuntime 0) \<lparr>StatusCode = 403, Body = 0\<rparr> (newWorld (\<lambda>b. []))) =
     ErrJson ''EOF'' \<and>
   parseError (stubRuntime 0) \<lparr>StatusCode = 404, Body = 0\<rparr> (newWorld (\<lambda>b. ''{}'')) =
     (ErrNotFound, newWorld (\<lambda>b. ''{}'')) \<and>
   parseError (stubRuntime 0) \<lparr>StatusCode = 502, Body = 0\<rparr> (newWorld (\<lambda>b. ''{}'')) =
     (ErrHttp 502, newWorld (\<lambda>b. ''{}''))"
proof -
  have g: "DecodeGeneric (stubRuntime 0) ''{}'' GenericError_zero = (2, GenericError_zero, None)"
    by (simp add: stubRuntime_def stubDecode_def)
  have f: "DecodeForbidden (stubRuntime 0) [] ForbiddenError_zero = (0, ForbiddenError_zero, Some ''EOF'')"
    by (simp add: stubRuntime_def stubDecode_def)
  from parseError_by_status [of "\<lparr>StatusCode = 400, Body = 0\<rparr>" "stubRuntime 0" "newWorld (\<lambda>b. ''{}'')"]
    parseError_by_status [of "\<lparr>StatusCode = 409, Body = 0\<rparr>" "stubRuntime 0" "newWorld (\<lambda>b. ''{}'')"]
    parseError_by_status [of "\<lparr>StatusCode = 403, Body = 0\<rparr>" "stubRuntime 0" "newWorld (\<lambda>b. [])"]
    parseError_by_status [of "\<lparr>StatusCode = 404, Body = 0\<rparr>" "stubRuntime 0" "newWorld (\<lambda>b. ''{}'')"]
    parseError_by_status [of "\<lparr>StatusCode = 502, Body = 0\<rparr>" "stubRuntime 0" "newWorld (\<lambda>b. ''{}'')"]
    g f
  show ?thesis by simp
qed

section \<open>Cancellation during the back-off sleep\<close>

text \<open>
  Claim C6. If attempt \<open>i\<close> is reached, receives a transient status, and the sleep that
  follows observes the cancellation, then the timer is stopped, its tick is received as well
  when \<open>Stop\<close> reports that it had already fired, the error of the context is what the retry
  loop and \<open>httpDo\<close> return, and nothing is sent after the \<open>i + 1\<close> sends made so far.
\<close>

theorem cancellation_during_sleep:
  assumes "i < retryCount a"
    and "\<forall>j<i. transientAt a req j \<and> wake ctx j = Fired"
    and "transientAt a req i"
    and "wake ctx i = Cancelled stopped"
  shows "(\<forall>w. trace w = [] \<longrightarrow>
            (\<exists>w'. httpDoRetry a rt ctx req (retryCount a) w = (Inl (ErrContext (Err ctx)), w')
               \<and> nsends (trace w') = Suc i
               \<and> (\<exists>tr d. trace w' = tr @ (if stopped then [NewTimer d, Stop True]
                                          else [NewTimer d, Stop False, Tick])))) \<and>
         (\<forall>b. Encode rt body = Inr b \<and> requestError rt method url = None \<and>
               req = outbound method url b \<longrightarrow>
            (\<exists>w'. httpDo a rt ctx method url body res (newWorld bs) =
                     (Some (ErrContext (Err ctx)), res, w')
               \<and> nsends (trace w') = Suc i
               \<and> (\<exists>tr d. trace w' = tr @ (if stopped then [NewTimer d, Stop True]
                                          else [NewTimer d, Stop False, Tick]))))"
proof (intro conjI allI impI)
  fix w :: world
  assume "trace w = []"
  from run_cancelled [OF this assms(2,1,3,4)]
  show "\<exists>w'. httpDoRetry a rt ctx req (retryCount a) w = (Inl (ErrContext (Err ctx)), w')
      \<and> nsends (trace w') = Suc i
      \<and> (\<exists>tr d. trace w' = tr @ (if stopped then [NewTimer d, Stop True]
                                 else [NewTimer d, Stop False, Tick]))" .
next
  fix b
  assume h: "Encode rt body = Inr b \<and> requestError rt method url = None \<and>
      req = outbound method url b"
  have "trace ((newWorld bs)\<lparr>reqBody := b\<rparr>) = []" by simp
  from run_cancelled [OF this assms(2,1,3,4), of rt]
  obtain w' where w': "httpDoRetry a rt ctx req (retryCount a) ((newWorld bs)\<lparr>reqBody := b\<rparr>) =
      (Inl (ErrContext (Err ctx)), w')"
    "nsends (trace w') = Suc i"
    "\<exists>tr d. trace w' = tr @ (if stopped then [NewTimer d, Stop True]
                             else [NewTimer d, Stop False, Tick])" by blast
  with h have "httpDo a rt ctx method url body res (newWorld bs) =
      (Some (ErrContext (Err ctx)), res, w')"
    by (simp add: httpDo_loop_error)
  with w' show "\<exists>w'. httpDo a rt ctx method url body res (newWorld bs) =
      (Some (ErrContext (Err ctx)), res, w')
      \<and> nsends (trace w') = Suc i
      \<and> (\<exists>tr d. trace w' = tr @ (if stopped then [NewTimer d, Stop True]
                                 else [NewTimer d, Stop False, Tick]))" by blast
qed

theorem cancellation_during_sleep_witness:
  "\<exists>w'. httpDo (stubAPI 429 100) (stubRuntime 0) \<lparr>Err = DeadlineExceeded, wake = cancelledAt 1 False\<rparr>
           ''GET'' BaseURL None None (newWorld (\<lambda>b. [])) =
           (Some (ErrContext DeadlineExceeded), None, w')
        \<and> nsends (trace w') = 2
        \<and> (\<exists>tr d. trace w' = tr @ [NewTimer d, Stop False, Tick])"
proof -
  let ?ctx = "\<lparr>Err = DeadlineExceeded, wake = cancelledAt 1 False\<rparr>"
  let ?req = "outbound ''GET'' BaseURL (''null'' @ [CHR 0x0A])"
  have 1: "1 < retryCount (stubAPI 429 100)" by (simp add: stubAPI_def)
  have 2: "\<forall>j<1. transientAt (stubAPI 429 100) ?req j \<and> wake ?ctx j = Fired"
    by (simp add: stub_transient cancelledAt_def)
  have 3: "wake ?ctx 1 = Cancelled False" by (simp add: cancelledAt_def)
  have 4: "Encode (stubRuntime 0) None = Inr (''null'' @ [CHR 0x0A]) \<and>
      requestError (stubRuntime 0) ''GET'' BaseURL = None \<and>
      ?req = outbound ''GET'' BaseURL (''null'' @ [CHR 0x0A])"
    by (simp add: stubRuntime_def)
  from cancellation_during_sleep [OF 1 2 stub_transient 3, of "stubRuntime 0" None "''GET''"
      BaseURL None "\<lambda>b. []"] 4
  show ?thesis by (simp add: numeral_2_eq_2 del: append.simps)
qed

section \<open>Transport failures\<close>

text \<open>
  Claim C7. If attempt \<open>i\<close> is reached and the transport fails there, the retry loop and
  \<open>httpDo\<close> return that very error, the failed send is the last event of the run, and
  \<open>i + 1\<close> sends were made, however many attempts remain.
\<close>

theorem transport_failure_aborts:
  assumes "i < retryCount a"
    and "\<forall>j<i. transientAt a req j \<and> wake ctx j = Fired"
    and "client a i req = Inl err"
  shows "(\<forall>w. trace w = [] \<longrightarrow>
            (\<exists>w'. httpDoRetry a rt ctx req (retryCount a) w = (Inl err, w')
               \<and> nsends (trace w') = Suc i \<and> (\<exists>tr b. trace w' = tr @ [Send req b]))) \<and>
         (\<forall>b. Encode rt body = Inr b \<and> requestError rt method url = None \<and>
               req = outbound method url b \<longrightarrow>
            (\<exists>w'. httpDo a rt ctx method url body res (newWorld bs) = (Some err, res, w')
               \<and> nsends (trace w') = Suc i \<and> (\<exists>tr b. trace w' = tr @ [Send req b])))"
proof (intro conjI allI impI)
  fix w :: world
  assume "trace w = []"
  from run_transport_error [OF this assms(2,1,3)]
  show "\<exists>w'. httpDoRetry a rt ctx req (retryCount a) w = (Inl err, w')
      \<and> nsends (trace w') = Suc i \<and> (\<exists>tr b. trace w' = tr @ [Send req b])" .
next
  fix b
  assume h: "Encode rt body = Inr b \<and> requestError rt method url = None \<and>
      req = outbound method url b"
  have "trace ((newWorld bs)\<lparr>reqBody := b\<rparr>) = []" by simp
  from run_transport_error [OF this assms(2,1,3), of rt]
  obtain w' where w': "httpDoRetry a rt ctx req (retryCount a) ((newWorld bs)\<lparr>reqBody := b\<rparr>) = (Inl err, w')"
    "nsends (trace w') = Suc i" "\<exists>tr b. trace w' = tr @ [Send req b]" by blast
  with h have "httpDo a rt ctx method url body res (newWorld bs) = (Some err, res, w')"
    by (simp add: httpDo_loop_error)
  with w' show "\<exists>w'. httpDo a rt ctx method url body res (newWorld bs) = (Some err, res, w')
      \<and> nsends (trace w') = Suc i \<and> (\<exists>tr b. trace w' = tr @ [Send req b])" by blast
qed

theorem transport_failure_aborts_witness:
  "\<exists>w'. httpDo \<lparr>client = failingClient 2 (ErrTransport ''connection refused''), retryCount = 5\<rparr>
           (stubRuntime 0) background ''GET'' BaseURL None None (newWorld (\<lambda>b. [])) =
           (Some (ErrTransport ''connection refused''), None, w')
        \<and> nsends (trace w') = 3
        \<and> (\<exists>tr b. trace w' = tr @ [Send (outbound ''GET'' BaseURL (''null'' @ [CHR 0x0A])) b])"
proof -
  let ?a = "\<lparr>client = failingClient 2 (ErrTransport ''connection refused''), retryCount = 5\<rparr>"
  let ?req = "outbound ''GET'' BaseURL (''null'' @ [CHR 0x0A])"
  have 1: "2 < retryCount ?a" by simp
  have 2: "\<forall>j<2. transientAt ?a ?req j \<and> wake background j = Fired"
    by (simp add: failingClient_transient background_def immediateTimer_def)
  have 3: "client ?a 2 ?req = Inl (ErrTransport ''connection refused'')"
    by (simp add: failingClient_def)
  have 4: "Encode (stubRuntime 0) None = Inr (''null'' @ [CHR 0x0A]) \<and>
      requestError (stubRuntime 0) ''GET'' BaseURL = None \<and>
      ?req = outbound ''GET'' BaseURL (''null'' @ [CHR 0x0A])"
    by (simp add: stubRuntime_def)
  from transport_failure_aborts [OF 1 2 3, of "stubRuntime 0" None "''GET''" BaseURL None
      "\<lambda>b. []"] 4
  show ?thesis by (simp del: append.simps)
qed

section \<open>Results on failure\<close>

text \<open>
  Claim C10. Whenever \<open>Create\<close> or \<open>Fetch\<close> returns an error, the account it returns with
  it is the zero value, also when the decoder had already written into the destination.
\<close>

theorem zero_value_on_error:
  "(snd (fst (Create a rt ctx data w)) \<noteq> None \<longrightarrow>
      fst (fst (Create a rt ctx data w)) = AccountData_zero) \<and>
   (snd (fst (Fetch a rt ctx accountID w)) \<noteq> None \<longrightarrow>
      fst (fst (Fetch a rt ctx accountID w)) = AccountData_zero)"
  by (auto simp add: Create_def Fetch_def split: prod.splits option.splits)

theorem zero_value_on_error_witness:
  "fst (snd (httpDo (stubAPI 200 3) (stubRuntime 0) background ''POST''
          (BaseURL @ ''/v1/organisation/accounts'') (Some AccountData_zero) (Some AccountData_zero)
          (newWorld (\<lambda>b. ''garbage'')))) = Some (AccountData_zero\<lparr>ID := ''0d209d7f''\<rparr>) \<and>
   snd (fst (Create (stubAPI 200 3) (stubRuntime 0) background AccountData_zero
          (newWorld (\<lambda>b. ''garbage'')))) = Some (ErrJson ''unexpected end of JSON input'') \<and>
   fst (fst (Create (stubAPI 200 3) (stubRuntime 0) background AccountData_zero
          (newWorld (\<lambda>b. ''garbage'')))) = AccountData_zero \<and>
   snd (fst (Fetch (stubAPI 404 3) (stubRuntime 0) background ''baz''
          (newWorld (\<lambda>b. ''garbage'')))) = Some ErrNotFound \<and>
   fst (fst (Fetch (stubAPI 404 3) (stubRuntime 0) background ''baz''
          (newWorld (\<lambda>b. ''garbage'')))) = AccountData_zero"
proof -
  have 1: "fst (snd (httpDo (stubAPI 200 3) (stubRuntime 0) background ''POST''
          (BaseURL @ ''/v1/organisation/accounts'') (Some AccountData_zero) (Some AccountData_zero)
          (newWorld (\<lambda>b. ''garbage'')))) = Some (AccountData_zero\<lparr>ID := ''0d209d7f''\<rparr>)"
    by code_simp
  have 2: "snd (fst (Create (stubAPI 200 3) (stubRuntime 0) background AccountData_zero
          (newWorld (\<lambda>b. ''garbage'')))) = Some (ErrJson ''unexpected end of JSON input'')"
    by code_simp
  have 3: "snd (fst (Fetch (stubAPI 404 3) (stubRuntime 0) background ''baz''
          (newWorld (\<lambda>b. ''garbage'')))) = Some ErrNotFound"
    by code_simp
  from zero_value_on_error [of "stubAPI 200 3" "stubRuntime 0" background AccountData_zero
      "newWorld (\<lambda>b. ''garbage'')"]
    zero_value_on_error [of "stubAPI 404 3" "stubRuntime 0" background _
      "newWorld (\<lambda>b. ''garbage'')" "''baz''"] 1 2 3
  show ?thesis by simp
qed

section \<open>The back-off delay\<close>

text \<open>
  \<open>roundPow\<close> gives the ten values that \<open>TestBackOff\<close> expects; \<open>roundPow n\<close> is the
  integer nearest to \<open>500 * 1.5^n\<close>, and it grows with \<open>n\<close>.
\<close>

lemma roundPow_table:
  "map roundPow [0..<10] = [500, 750, 1125, 1688, 2531, 3797, 5695, 8543, 12814, 19222]"
  by code_simp

lemma roundPow_nearest:
  "2 * 2 ^ n * roundPow n \<le> 1000 * 3 ^ n + 2 ^ n \<and>
   1000 * 3 ^ n - 2 ^ n < 2 * 2 ^ n * roundPow n"
proof -
  let ?a = "1000 * 3 ^ n + 2 ^ n :: int" and ?b = "2 * 2 ^ n :: int"
  have b: "0 < ?b" by simp
  have "?a = ?b * (?a div ?b) + ?a mod ?b" by simp
  moreover have "0 \<le> ?a mod ?b" "?a mod ?b < ?b" using b by simp_all
  ultimately have "?b * (?a div ?b) \<le> ?a" "?a < ?b * (?a div ?b) + ?b" by linarith+
  then show ?thesis by (simp add: roundPow_def)
qed

lemma roundPow_mono_Suc: "roundPow n \<le> roundPow (Suc n)"
proof -
  have "roundPow n = (2 * (1000 * 3 ^ n + 2 ^ n)) div (2 * (2 * 2 ^ n))"
    unfolding roundPow_def by (rule div_mult_mult1 [symmetric]) simp
  also have "\<dots> \<le> (1000 * 3 ^ Suc n + 2 ^ Suc n) div (2 * (2 * 2 ^ n))"
    by (rule zdiv_mono1) simp_all
  also have "\<dots> = roundPow (Suc n)" by (simp add: roundPow_def)
  finally show ?thesis .
qed

lemma roundPow_mono: "m \<le> n \<Longrightarrow> roundPow m \<le> roundPow n"
  by (rule lift_Suc_mono_le [of roundPow]) (rule roundPow_mono_Suc)

lemma roundPow_0: "roundPow 0 = 500"
  by (simp add: roundPow_def)

lemma roundPow_58: "roundPow 58 = 8170770825985"
  by code_simp

lemma roundPow_bounds: "n \<le> 58 \<Longrightarrow> 500 \<le> roundPow n \<and> roundPow n \<le> 8170770825985"
  using roundPow_mono [of 0 n] roundPow_mono [of n 58] by (simp add: roundPow_0 roundPow_58)

lemma sint_int64: "- (2 ^ 63) \<le> x \<Longrightarrow> x < 2 ^ 63 \<Longrightarrow> sint (word_of_int x :: 64 word) = x"
  by (simp add: sint_sbintrunc' signed_take_bit_int_eq_self)

text \<open>
  Up to attempt 58 nothing overflows: the duration handed to the timer is
  \<open>max(100, round(500 * 1.5^n) + jitter)\<close> milliseconds, the jitter in \<open>[-50, 49]\<close>.
\<close>

lemma backOffDuration_in_range:
  assumes "n \<le> 58" "r < 100"
  shows "sint (backOffDuration n r) = 1000000 * max 100 (roundPow n + int r - 50)"
proof -
  from roundPow_bounds [OF assms(1)] have b: "500 \<le> roundPow n" "roundPow n \<le> 8170770825985" by simp_all
  let ?y = "roundPow n + int r - 50"
  have y: "450 \<le> ?y" "?y \<le> 8170770826034" using b assms(2) by simp_all
  have f: "float_to_int (roundPow n) = word_of_int (roundPow n)"
    using b by (simp add: float_to_int_def)
  have s: "(word_of_int (roundPow n) :: 64 word) + (word_of_nat r - word_of_nat (backOffJitterMs div 2)) = word_of_int ?y"
    by (simp add: backOffJitterMs_def)
  have sy: "sint (word_of_int ?y :: 64 word) = ?y"
    using y by (intro sint_int64) simp_all
  have m: "max_int minBackOffMs (word_of_int ?y) = word_of_int ?y"
    using y sy by (simp add: max_int_def minBackOffMs_def)
  have "backOffDuration n r = word_of_int ?y * Millisecond"
    unfolding backOffDuration_def Let_def by (simp only: f s m)
  then have "backOffDuration n r = word_of_int (?y * 1000000)"
    by (simp add: Millisecond_def)
  moreover have "sint (word_of_int (?y * 1000000) :: 64 word) = ?y * 1000000"
    using y by (intro sint_int64) simp_all
  ultimately show ?thesis using y by (simp add: max_def)
qed

text \<open>At attempt 59 the multiplication by \<open>time.Millisecond\<close> wraps, whatever the draw.\<close>

lemma backOffDuration_59_all_draws:
  "list_all (\<lambda>r. sint (backOffDuration 59 r) < 0) [0..<100]"
  by code_simp

lemma backOffDuration_59_negative:
  "r < 100 \<Longrightarrow> sint (backOffDuration 59 r) < 0"
  using backOffDuration_59_all_draws by (simp add: list_all_iff)

text \<open>
  Claim C3. The claim (for every attempt the duration handed to the timer is
  \<open>max(100ms, round(500ms * 1.5^n) + jitter)\<close>, never negative and never below 100ms)
  fails on the code at attempt 59: \<open>backOff(ctx, 59)\<close> asks for a timer of
  -6190587834731551616 nanoseconds, the 64-bit product of 12256156238978 milliseconds and
  \<open>time.Millisecond\<close> having wrapped around.
\<close>

theorem backOff_attempt_59_negative_delay:
  "trace (snd (backOff (stubRuntime 0) background 59 (newWorld (\<lambda>b. [])))) =
     [NewTimer (backOffDuration 59 50), Tick] \<and>
   sint (backOffDuration 59 50) = - 6190587834731551616"
  by code_simp

section \<open>The request body across attempts\<close>

text \<open>
  When no transport reads the request body (as the stub transport of the tests), every send is
  handed the same bytes.
\<close>

lemma replay_when_unread:
  assumes "\<forall>k. bodyRead rt k = 0"
    and "set (sentBodies (trace w)) \<subseteq> {reqBody w}"
  shows "set (sentBodies (trace (snd (httpDoRetry_from a rt ctx req count i w)))) \<subseteq> {reqBody w}"
proof (rule loop_rule [where I = "\<lambda>w'. reqBody w' = reqBody w \<and> set (sentBodies (trace w')) \<subseteq> {reqBody w}"
      and Q = "\<lambda>rw. set (sentBodies (trace (snd rw))) \<subseteq> {reqBody w}"])
  show "reqBody w = reqBody w \<and> set (sentBodies (trace w)) \<subseteq> {reqBody w}"
    using assms(2) by simp
qed (use assms(1) in auto)

text \<open>
  Claim C9. The claim (every attempt hands the transport the same body bytes as attempt 0)
  fails on the code as soon as the transport reads the body it is handed: \<open>httpDo\<close> encodes
  the body once into one \<open>bytes.Buffer\<close> and \<open>httpDoRetry\<close> passes the same request, with
  this same one-shot reader, to every \<open>client.Do\<close>. A \<open>Fetch\<close> whose first send is read by
  the transport and answered 429 hands the second send an empty body.
\<close>

theorem request_body_consumed_by_first_send:
  "sentBodies (trace (snd (Fetch (stubAPI 429 2) (stubRuntime 5) background ''foo''
     (newWorld (\<lambda>b. []))))) = [''null'' @ [CHR 0x0A], []]"
  by code_simp

end
